theory Spec2Isabelle
  imports Main "HOL-Library.Sublist"
begin

section \<open>Strings and paths of the Go standard library\<close>

text \<open>
  Go strings are byte sequences; they are modelled as \<open>string\<close> (lists of 8-bit characters).
  The functions of this section are the library functions the repository calls
  (\<^verbatim>\<open>strings.HasSuffix\<close>, \<^verbatim>\<open>strings.TrimSuffix\<close>, \<^verbatim>\<open>strings.Split\<close>,
  \<^verbatim>\<open>strings.NewReplacer(...).Replace\<close>, \<^verbatim>\<open>filepath.Join\<close> on a Unix system),
  written out so that they compute.
\<close>

definition HasSuffix :: "string \<Rightarrow> string \<Rightarrow> bool" where
  "HasSuffix s suf = suffix suf s"

definition HasPrefix :: "string \<Rightarrow> string \<Rightarrow> bool" where
  "HasPrefix s pre = prefix pre s"

definition TrimSuffix :: "string \<Rightarrow> string \<Rightarrow> string" where
  "TrimSuffix s suf = (if HasSuffix s suf then take (length s - length suf) s else s)"

text \<open>\<^verbatim>\<open>strings.Split(s, sep)\<close> for a one-byte separator: always at least one field.\<close>

fun Split :: "string \<Rightarrow> char \<Rightarrow> string list" where
  "Split [] sep = [[]]"
| "Split (c # cs) sep =
     (if c = sep then [] # Split cs sep
      else (case Split cs sep of
              [] \<Rightarrow> [[c]]
            | w # ws \<Rightarrow> (c # w) # ws))"

text \<open>\<^verbatim>\<open>strings.Join(elems, sep)\<close>.\<close>

fun JoinStrings :: "string list \<Rightarrow> string \<Rightarrow> string" where
  "JoinStrings [] sep = []"
| "JoinStrings [e] sep = e"
| "JoinStrings (e # es) sep = e @ sep @ JoinStrings es sep"

text \<open>
  \<^verbatim>\<open>strings.NewReplacer(old1, new1, ...).Replace(s)\<close>, the generic replacer: the target
  is scanned from the left; at each position the first pair, in argument order, whose
  old string starts there is replaced by its new string and the scan goes on behind the
  match (matches never overlap); a position where no old string starts is copied.
  The replacer of this repository has no empty old string; \<open>lookupOld\<close> skips such pairs.
\<close>

fun lookupOld :: "(string \<times> string) list \<Rightarrow> string \<Rightarrow> (string \<times> string) option" where
  "lookupOld [] s = None"
| "lookupOld ((old, new) # rest) s =
     (if old \<noteq> [] \<and> prefix old s then Some (old, new) else lookupOld rest s)"

function Replace :: "(string \<times> string) list \<Rightarrow> string \<Rightarrow> string" where
  "Replace oldnew [] = []"
| "Replace oldnew (c # cs) =
     (case lookupOld oldnew (c # cs) of
        Some (old, new) \<Rightarrow> new @ Replace oldnew (drop (length old) (c # cs))
      | None \<Rightarrow> c # Replace oldnew cs)"
  by pat_completeness auto
termination
proof (relation "measure (\<lambda>(oldnew, s). length s)")
  show "wf (measure (\<lambda>(oldnew, s). length s))" by simp
next
  fix oldnew :: "(string \<times> string) list" and c :: char and cs :: string
    and x2 :: "string \<times> string" and old new :: string
  assume found: "lookupOld oldnew (c # cs) = Some x2" and x2: "(old, new) = x2"
  have "lookupOld on s = Some (a, b) \<Longrightarrow> a \<noteq> []" for on s a b
    by (induction on) (auto split: if_splits)
  with found x2 have "old \<noteq> []" by metis
  then show "((oldnew, drop (length old) (c # cs)), (oldnew, c # cs))
               \<in> measure (\<lambda>(oldnew, s). length s)"
    by (cases old) auto
next
  fix oldnew :: "(string \<times> string) list" and c :: char and cs :: string
  show "((oldnew, cs), (oldnew, c # cs)) \<in> measure (\<lambda>(oldnew, s). length s)"
    by simp
qed

text \<open>
  \<^verbatim>\<open>filepath.Clean\<close> on Unix, on the path's elements: empty elements and \<open>.\<close> are
  dropped, \<open>..\<close> removes the element before it, is dropped at the root and kept at the
  start of a relative path. \<open>out\<close> is the stack of elements written so far, last first.
\<close>

fun cleanElems :: "bool \<Rightarrow> string list \<Rightarrow> string list \<Rightarrow> string list" where
  "cleanElems rooted out [] = rev out"
| "cleanElems rooted out (e # es) =
     (if e = [] \<or> e = ''.'' then cleanElems rooted out es
      else if e = ''..'' then
        (case out of
           t # ts \<Rightarrow> (if t \<noteq> ''..'' then cleanElems rooted ts es
                      else if rooted then cleanElems rooted out es
                      else cleanElems rooted (''..'' # out) es)
         | [] \<Rightarrow> (if rooted then cleanElems rooted out es
                   else cleanElems rooted (''..'' # out) es))
      else cleanElems rooted (e # out) es)"

definition Clean :: "string \<Rightarrow> string" where
  "Clean path =
     (if path = [] then ''.''
      else let rooted = (hd path = CHR ''/'');
               body = JoinStrings (cleanElems rooted [] (Split path (CHR ''/''))) ''/''
           in if rooted then CHR ''/'' # body
              else if body = [] then ''.'' else body)"

text \<open>
  \<^verbatim>\<open>filepath.Join\<close>: the elements from the first non-empty one on are joined with
  the separator and cleaned; all elements empty gives the empty string.
\<close>

definition Join :: "string list \<Rightarrow> string" where
  "Join elem =
     (case dropWhile (\<lambda>e. e = []) elem of
        [] \<Rightarrow> []
      | es \<Rightarrow> Clean (JoinStrings es ''/''))"

section \<open>URLs and local paths (managed\_repository.go)\<close>

text \<open>
  \<^verbatim>\<open>url.URL\<close>: the fields the repository reads or writes, and those the zero value
  \<^verbatim>\<open>url.URL{}\<close> leaves empty. \<open>User\<close> is the userinfo (name and optional password),
  \<open>None\<close> for the nil pointer.
\<close>

record URL =
  Scheme :: string
  Opaque :: string
  User :: "(string \<times> string option) option"
  Host :: string
  Path :: string
  RawPath :: string
  ForceQuery :: bool
  RawQuery :: string
  Fragment :: string
  RawFragment :: string

definition zeroURL :: URL where
  "zeroURL = \<lparr>Scheme = [], Opaque = [], User = None, Host = [], Path = [], RawPath = [],
              ForceQuery = False, RawQuery = [], Fragment = [], RawFragment = []\<rparr>"

definition urlFixer :: "URL \<Rightarrow> URL" where
  "urlFixer u =
     (let result = zeroURL\<lparr>Scheme := ''https'', Host := Host u, Path := Path u\<rparr>
      in if HasSuffix (Path result) ''/info/refs''
           then result\<lparr>Path := TrimSuffix (Path result) ''/info/refs''\<rparr>
         else if HasSuffix (Path result) ''/git-receive-pack''
           then result\<lparr>Path := TrimSuffix (Path result) ''/git-receive-pack''\<rparr>
         else if HasSuffix (Path result) ''/git-upload-pack''
           then result\<lparr>Path := TrimSuffix (Path result) ''/git-upload-pack''\<rparr>
         else result)"

definition gitSuffixReplacer :: "(string \<times> string) list" where
  "gitSuffixReplacer =
     [(''/info/refs'', []), (''/git-receive-pack'', []), (''/git-upload-pack'', []), (''.git'', [])]"

definition stripGitSuffixes :: "string \<Rightarrow> string" where
  "stripGitSuffixes path = Replace gitSuffixReplacer path"

record ServerConfig =
  LocalDiskCacheRoot :: string

definition getLocalGitRepositoryPath :: "ServerConfig \<Rightarrow> URL \<Rightarrow> string" where
  "getLocalGitRepositoryPath config u =
     Join [LocalDiskCacheRoot config, Host u, stripGitSuffixes (Path u)]"

section \<open>Errors, the git binary and the local repository\<close>

text \<open>
  Go errors. The sentinel values the code compares against (\<^verbatim>\<open>plumbing.ErrReferenceNotFound\<close>,
  \<^verbatim>\<open>plumbing.ErrObjectNotFound\<close>) and the class \<^verbatim>\<open>os.IsNotExist\<close> recognises are
  constructors of their own; every other error is its message. A Go \<^verbatim>\<open>error\<close> that may
  be nil is an \<open>error option\<close>.
\<close>

datatype error =
    ErrReferenceNotFound
  | ErrObjectNotFound
  | ErrNotExist string
  | GoError string

fun Error :: "error \<Rightarrow> string" where
  "Error ErrReferenceNotFound = ''reference not found''"
| "Error ErrObjectNotFound = ''object not found''"
| "Error (ErrNotExist m) = m"
| "Error (GoError m) = m"

fun IsNotExist :: "error \<Rightarrow> bool" where
  "IsNotExist (ErrNotExist m) = True"
| "IsNotExist e = False"

text \<open>\<^verbatim>\<open>fmt.Errorf(prefix + "%v", err)\<close> and \<^verbatim>\<open>status.Errorf(code, prefix + "%v", err)\<close>.\<close>

definition Errorf :: "string \<Rightarrow> error \<Rightarrow> error" where
  "Errorf msg err = GoError (msg @ Error err)"

definition statusError :: "string \<Rightarrow> string \<Rightarrow> error" where
  "statusError code msg = GoError (''rpc error: code = '' @ code @ '' desc = '' @ msg)"

definition statusErrorf :: "string \<Rightarrow> string \<Rightarrow> error \<Rightarrow> error" where
  "statusErrorf code msg err = statusError code (msg @ Error err)"

text \<open>A number printed by \<^verbatim>\<open>%d\<close>.\<close>

function itoa :: "nat \<Rightarrow> string" where
  "itoa n = (if n < 10 then [char_of (48 + n)]
             else itoa (n div 10) @ [char_of (48 + n mod 10)])"
  by pat_completeness auto
termination
  by (relation "measure (\<lambda>n. n)") auto

text \<open>\<^verbatim>\<open>strings.Contains\<close>.\<close>

fun Contains :: "string \<Rightarrow> string \<Rightarrow> bool" where
  "Contains [] sub = (sub = [])"
| "Contains (c # cs) sub = (prefix sub (c # cs) \<or> Contains cs sub)"

text \<open>\<^verbatim>\<open>plumbing.Hash\<close>: the twenty bytes of an object name.\<close>

type_synonym Hash = string

text \<open>\<^verbatim>\<open>exec.Cmd\<close>, as far as the code sets it.\<close>

record Cmd =
  Args :: "string list"
  Env :: "string list"
  Dir :: string

text \<open>
  What the code reaches outside the process or in libraries that are not part of the
  repository, taken as parameters: the path of the git binary found at start-up, the
  result of running a command (\<^verbatim>\<open>cmd.Run\<close>), \<^verbatim>\<open>os.Stat\<close> and \<^verbatim>\<open>os.MkdirAll\<close>,
  \<^verbatim>\<open>url.URL.String\<close>, \<^verbatim>\<open>url.URL.Query().Get\<close> (on the raw query), \<^verbatim>\<open>plumbing.NewHash\<close>,
  \<^verbatim>\<open>strings.TrimSpace\<close>, and the pkt-line writers \<^verbatim>\<open>writePacket\<close> and \<^verbatim>\<open>writeResp\<close>
  (the bytes they put into the buffer).
\<close>

datatype InfoRefsResponseChunk =
    ProtocolVersion nat
  | Capabilities "string list"
  | EndOfRequest

record ProtocolV2RequestChunk =
  Command :: string
  Argument :: "string option"
  EndRequest :: bool

record ProtocolV2ResponseChunk =
  Response :: "string option"
  EndResponse :: bool

record world =
  gitBinary :: string
  Run :: "Cmd \<Rightarrow> error option"
  Stat :: "string \<Rightarrow> error option"
  MkdirAll :: "string \<Rightarrow> error option"
  URLString :: "URL \<Rightarrow> string"
  QueryGet :: "string \<Rightarrow> string \<Rightarrow> string"
  NewHash :: "string \<Rightarrow> Hash"
  TrimSpace :: "string \<Rightarrow> string"
  writePacket :: "InfoRefsResponseChunk \<Rightarrow> error + string"
  writeResp :: "ProtocolV2ResponseChunk list \<Rightarrow> string"

text \<open>
  The local bare repository as go-git shows it at one moment: whether \<^verbatim>\<open>git.PlainOpen\<close>
  fails, \<^verbatim>\<open>g.Reference(name, true)\<close> (the hash of the resolved reference, or the error) and
  \<^verbatim>\<open>g.Object(plumbing.AnyObject, hash)\<close> (the error, if any).
\<close>

record gitrepo =
  PlainOpen :: "error option"
  Reference :: "string \<Rightarrow> error + Hash"
  Object :: "Hash \<Rightarrow> error option"

section \<open>The mirror and the registry (managed\_repository.go)\<close>

text \<open>
  \<^verbatim>\<open>time.Time\<close> as nanoseconds since the zero time; the zero value \<^verbatim>\<open>time.Time{}\<close> is 0.
\<close>

type_synonym Time = nat

definition zeroTime :: Time where
  "zeroTime = 0"

record managedRepository =
  localDiskPath :: string
  lastUpdate :: Time
  upstreamURL :: URL
  config :: ServerConfig
  isPublic :: bool
  accessList :: "string list"

text \<open>\<^verbatim>\<open>managedRepos\<close>, the \<^verbatim>\<open>sync.Map\<close> from local path to mirror.\<close>

type_synonym registry = "string \<rightharpoonup> managedRepository"

definition managedRepositoryExists :: "registry \<Rightarrow> ServerConfig \<Rightarrow> URL \<Rightarrow> bool" where
  "managedRepositoryExists managedRepos cfg u =
     (managedRepos (getLocalGitRepositoryPath cfg u) \<noteq> None)"

text \<open>The mirror is returned together with the registry after \<^verbatim>\<open>managedRepos.Store\<close>.\<close>

definition createManagedRepository ::
  "registry \<Rightarrow> ServerConfig \<Rightarrow> URL \<Rightarrow> string \<Rightarrow> managedRepository \<times> registry" where
  "createManagedRepository managedRepos cfg u0 auth =
     (let u = urlFixer u0;
          localRepositoryPath = getLocalGitRepositoryPath cfg u;
          repository = \<lparr>localDiskPath = localRepositoryPath, lastUpdate = zeroTime,
                         upstreamURL = u, config = cfg, isPublic = True, accessList = []\<rparr>;
          repository' = (if auth \<noteq> []
                         then repository\<lparr>isPublic := False,
                                          accessList := accessList repository @ [auth]\<rparr>
                         else repository)
      in (repository', managedRepos(localRepositoryPath \<mapsto> repository')))"

definition getManagedRepository :: "registry \<Rightarrow> ServerConfig \<Rightarrow> URL \<Rightarrow> managedRepository option" where
  "getManagedRepository managedRepos cfg u = managedRepos (getLocalGitRepositoryPath cfg u)"

text \<open>
  \<^verbatim>\<open>runGit\<close>: the command with its arguments, an empty environment and the directory;
  with a credential, \<^verbatim>\<open>-c\<close> and the header line are put in front of all of
  \<^verbatim>\<open>cmd.Args\<close>. The command that was run is returned with the error.
\<close>

definition gitCmd :: "world \<Rightarrow> string \<Rightarrow> string \<Rightarrow> string list \<Rightarrow> Cmd" where
  "gitCmd w gitDir authentication arg =
     (let cmd = \<lparr>Args = gitBinary w # arg, Env = [], Dir = gitDir\<rparr>
      in if authentication \<noteq> []
         then cmd\<lparr>Args := [''-c'', ''Authorization: '' @ authentication] @ Args cmd\<rparr>
         else cmd)"

definition runGit :: "world \<Rightarrow> string \<Rightarrow> string \<Rightarrow> string list \<Rightarrow> error option \<times> Cmd" where
  "runGit w gitDir authentication arg =
     (let cmd = gitCmd w gitDir authentication arg
      in (case Run w cmd of
            Some err \<Rightarrow> (Some (Errorf ''failed to run a git command: '' err), cmd)
          | None \<Rightarrow> (None, cmd)))"

text \<open>
  \<^verbatim>\<open>open\<close>: the error it returns and the git commands it ran, in order. The results of
  the seven \<^verbatim>\<open>runGit\<close> calls are not looked at.
\<close>

definition openCommands :: "world \<Rightarrow> managedRepository \<Rightarrow> string list list" where
  "openCommands w r =
     [[''init'', ''--bare''],
      [''config'', ''protocol.version'', ''2''],
      [''config'', ''uploadpack.allowfilter'', ''1''],
      [''config'', ''uploadpack.allowrefinwant'', ''1''],
      [''config'', ''repack.writebitmaps'', ''1''],
      [''config'', ''http.version'', ''HTTP/1.1''],
      [''remote'', ''add'', ''--mirror=fetch'', ''origin'', URLString w (upstreamURL r)]]"

definition open_repo :: "world \<Rightarrow> managedRepository \<Rightarrow> error option \<times> Cmd list" where
  "open_repo w r =
     (case Stat w (localDiskPath r) of
        Some err \<Rightarrow>
          (if \<not> IsNotExist err
           then (Some (statusErrorf ''Internal''
                         ''error while initializing local Git repoitory: '' err), [])
           else (case MkdirAll w (localDiskPath r) of
                   Some err' \<Rightarrow> (Some (statusErrorf ''Internal'' ''cannot create a cache dir: '' err'), [])
                 | None \<Rightarrow>
                     (None, map (\<lambda>arg. snd (runGit w (localDiskPath r) [] arg)) (openCommands w r))))
      | None \<Rightarrow> (None, []))"

text \<open>
  \<^verbatim>\<open>fetchUpstream\<close>, on the repository as it is when the fetch starts: the error, the
  mirror after the call and the git commands run. No statement of the function assigns a
  field of the mirror.
\<close>

definition fetchUpstream ::
  "world \<Rightarrow> gitrepo \<Rightarrow> managedRepository \<Rightarrow> string \<Rightarrow> error option \<times> managedRepository \<times> Cmd list" where
  "fetchUpstream w g r authentication =
     (case PlainOpen g of
        Some err \<Rightarrow> (Some (Errorf ''cannot open the local cached repository: '' err), r, [])
      | None \<Rightarrow>
          (let splitGitFetch = (Reference g ''HEAD'' = Inl ErrReferenceNotFound);
               first = runGit w (localDiskPath r) authentication
                         [''fetch'', ''--progress'', ''-f'', ''-n'', ''origin'',
                          ''refs/heads/*:refs/heads/*'', ''refs/changes/*:refs/changes/*''];
               second = runGit w (localDiskPath r) authentication
                         [''fetch'', ''--progress'', ''-f'', ''origin'']
           in if splitGitFetch
              then (if fst first = None then (fst second, r, [snd first, snd second])
                    else (fst first, r, [snd first]))
              else (fst second, r, [snd second])))"

definition LastUpdateTime :: "managedRepository \<Rightarrow> Time" where
  "LastUpdateTime r = lastUpdate r"

definition Add :: "managedRepository \<Rightarrow> string \<Rightarrow> managedRepository" where
  "Add r auth = r\<lparr>accessList := accessList r @ [auth]\<rparr>"

definition HasAccess :: "managedRepository \<Rightarrow> string \<Rightarrow> bool" where
  "HasAccess r auth = (auth \<in> set (accessList r))"

text \<open>
  \<^verbatim>\<open>hasAnyUpdate\<close>. The Go map of advertised references is the list of its entries in the
  order the \<^verbatim>\<open>range\<close> statement visits them.
\<close>

fun hasAnyUpdateLoop :: "gitrepo \<Rightarrow> (string \<times> Hash) list \<Rightarrow> error + bool" where
  "hasAnyUpdateLoop g [] = Inr False"
| "hasAnyUpdateLoop g ((refName, hash) # rest) =
     (case Reference g refName of
        Inl err \<Rightarrow> (if err = ErrReferenceNotFound then Inr True
                     else Inl (Errorf ''cannot open the reference: '' err))
      | Inr h \<Rightarrow> (if h \<noteq> hash then Inr True else hasAnyUpdateLoop g rest))"

definition hasAnyUpdate :: "gitrepo \<Rightarrow> (string \<times> Hash) list \<Rightarrow> error + bool" where
  "hasAnyUpdate g refs =
     (case PlainOpen g of
        Some err \<Rightarrow> Inl (Errorf ''cannot open the local cached repository: '' err)
      | None \<Rightarrow> hasAnyUpdateLoop g refs)"

fun wantHashesLoop :: "gitrepo \<Rightarrow> Hash list \<Rightarrow> error + bool" where
  "wantHashesLoop g [] = Inr True"
| "wantHashesLoop g (hash # rest) =
     (case Object g hash of
        Some err \<Rightarrow> (if err = ErrObjectNotFound then Inr False
                      else Inl (Errorf ''error while looking up an object for want check: '' err))
      | None \<Rightarrow> wantHashesLoop g rest)"

fun wantRefsLoop :: "gitrepo \<Rightarrow> string list \<Rightarrow> error + bool" where
  "wantRefsLoop g [] = Inr True"
| "wantRefsLoop g (refName # rest) =
     (case Reference g refName of
        Inl err \<Rightarrow> (if err = ErrReferenceNotFound then Inr False
                     else Inl (Errorf ''error while looking up a reference for want check: '' err))
      | Inr h \<Rightarrow> wantRefsLoop g rest)"

definition hasAllWants :: "gitrepo \<Rightarrow> Hash list \<Rightarrow> string list \<Rightarrow> error + bool" where
  "hasAllWants g hashes refs =
     (case PlainOpen g of
        Some err \<Rightarrow> Inl (Errorf ''cannot open the local cached repository: '' err)
      | None \<Rightarrow>
          (case wantHashesLoop g hashes of
             Inr True \<Rightarrow> wantRefsLoop g refs
           | other \<Rightarrow> other))"

section \<open>The command dispatcher\<close>

text \<open>
  A Go map built by assignments, as the list of its entries (keys distinct).
\<close>

fun mapStore :: "string \<Rightarrow> Hash \<Rightarrow> (string \<times> Hash) list \<Rightarrow> (string \<times> Hash) list" where
  "mapStore k v [] = [(k, v)]"
| "mapStore k v ((k', v') # m) = (if k = k' then (k, v) # m else (k', v') # mapStore k v m)"

fun parseLsRefsLoop ::
  "world \<Rightarrow> (string \<times> Hash) list \<Rightarrow> ProtocolV2ResponseChunk list \<Rightarrow> error + (string \<times> Hash) list" where
  "parseLsRefsLoop w m [] = Inr m"
| "parseLsRefsLoop w m (ch # chunks) =
     (case Response ch of
        None \<Rightarrow> parseLsRefsLoop w m chunks
      | Some resp \<Rightarrow>
          (let ss = Split resp (CHR '' '')
           in if length ss < 2
              then Inl (statusError ''Internal''
                          (''cannot parse the upstream ls-refs response: got '' @ itoa (length ss)
                           @ '' component, want at least 2''))
              else parseLsRefsLoop w (mapStore (TrimSpace w (ss ! 1)) (NewHash w (ss ! 0)) m) chunks))"

definition parseLsRefsResponse ::
  "world \<Rightarrow> ProtocolV2ResponseChunk list \<Rightarrow> error + (string \<times> Hash) list" where
  "parseLsRefsResponse w chunks = parseLsRefsLoop w [] chunks"

fun parseFetchLoop ::
  "world \<Rightarrow> Hash list \<Rightarrow> string list \<Rightarrow> ProtocolV2RequestChunk list \<Rightarrow> error + (Hash list \<times> string list)" where
  "parseFetchLoop w hashes refs [] = Inr (hashes, refs)"
| "parseFetchLoop w hashes refs (ch # chunks) =
     (case Argument ch of
        None \<Rightarrow> parseFetchLoop w hashes refs chunks
      | Some s \<Rightarrow>
          (if HasPrefix s ''want '' then
             (let ss = Split s (CHR '' '')
              in if length ss < 2
                 then Inl (statusError ''InvalidArgument''
                             (''cannot parse the fetch request: got '' @ itoa (length ss)
                              @ '' component, want at least 2''))
                 else parseFetchLoop w (hashes @ [NewHash w (TrimSpace w (ss ! 1))]) refs chunks)
           else if HasPrefix s ''want-ref '' then
             (let ss = Split s (CHR '' '')
              in if length ss < 2
                 then Inl (statusError ''InvalidArgument''
                             (''cannot parse the fetch request: got '' @ itoa (length ss)
                              @ '' component, want at least 2''))
                 else parseFetchLoop w hashes (refs @ [TrimSpace w (ss ! 1)]) chunks)
           else parseFetchLoop w hashes refs chunks))"

definition parseFetchWants ::
  "world \<Rightarrow> ProtocolV2RequestChunk list \<Rightarrow> error + (Hash list \<times> string list)" where
  "parseFetchWants w chunks = parseFetchLoop w [] [] chunks"

text \<open>
  What one call of \<^verbatim>\<open>handleV2Command\<close> meets: the result of \<^verbatim>\<open>repo.lsRefsUpstream\<close> (the
  HTTPS POST to the upstream), the order in which \<^verbatim>\<open>range\<close> visits the advertised
  references, the local repository when the command starts and when the fetch task
  starts, the cases the \<^verbatim>\<open>select\<close> statement takes, in order, each with the local
  repository at that moment, and the result of \<^verbatim>\<open>repo.serveFetchLocal\<close> (the error of
  \<^verbatim>\<open>git upload-pack\<close> and the bytes it wrote to the client writer).
\<close>

datatype select = CtxDone error | FetchDone | TimerC

record cmdenv =
  lsRefsUpstream :: "error + ProtocolV2ResponseChunk list"
  rangeOrder :: "(string \<times> Hash) list \<Rightarrow> (string \<times> Hash) list"
  localRepo :: gitrepo
  fetchRepo :: gitrepo
  selects :: "(select \<times> gitrepo) list"
  serveFetchLocal :: "error option \<times> string"

text \<open>
  What a call does besides returning: the upstream request, a task started with
  \<^verbatim>\<open>go\<close> that runs \<^verbatim>\<open>fetchUpstream\<close>, the response chunks written with \<^verbatim>\<open>writeResp\<close>,
  \<^verbatim>\<open>git upload-pack\<close> run on the local mirror, a git command run by \<^verbatim>\<open>open\<close>.
\<close>

datatype event =
    LsRefsUpstream "ProtocolV2RequestChunk list" string
  | GoFetchUpstream string
  | WriteResp "ProtocolV2ResponseChunk list"
  | ServeFetchLocal "ProtocolV2RequestChunk list"
  | RunGit Cmd

text \<open>
  A call has returned a value, is still waiting when the given \<^verbatim>\<open>select\<close> cases are
  used up, or has panicked (\<^verbatim>\<open>command[0]\<close> of an empty command).
\<close>

datatype 'a outcome = Returned 'a | Waiting | Panicked

datatype loopExit = LoopReturn "error option" | LoopBreak | LoopWaiting

text \<open>
  The \<^verbatim>\<open>LOOP\<close> of the fetch command. \<open>fetchErr\<close> is the value the fetch task sends on
  \<^verbatim>\<open>fetchDone\<close>.
\<close>

fun wantWaitLoop ::
  "error option \<Rightarrow> Hash list \<Rightarrow> string list \<Rightarrow> (select \<times> gitrepo) list \<Rightarrow> loopExit" where
  "wantWaitLoop fetchErr wantHashes wantRefs [] = LoopWaiting"
| "wantWaitLoop fetchErr wantHashes wantRefs ((CtxDone ctxErr, g) # rest) = LoopReturn (Some ctxErr)"
| "wantWaitLoop fetchErr wantHashes wantRefs ((FetchDone, g) # rest) =
     (case hasAllWants g wantHashes wantRefs of
        Inl checkErr \<Rightarrow> LoopReturn (Some checkErr)
      | Inr hasAll \<Rightarrow> (if \<not> hasAll then LoopReturn fetchErr else LoopBreak))"
| "wantWaitLoop fetchErr wantHashes wantRefs ((TimerC, g) # rest) =
     (case hasAllWants g wantHashes wantRefs of
        Inl err \<Rightarrow> LoopReturn (Some err)
      | Inr hasAll \<Rightarrow> (if hasAll then LoopBreak
                        else wantWaitLoop fetchErr wantHashes wantRefs rest))"

text \<open>
  \<^verbatim>\<open>handleV2Command\<close>: what it returns, the bytes it wrote to \<open>w\<close>, and what it did.
\<close>

definition serveLocal ::
  "cmdenv \<Rightarrow> ProtocolV2RequestChunk list \<Rightarrow> event list \<Rightarrow> error option outcome \<times> string \<times> event list" where
  "serveLocal env command evs =
     (Returned (fst (serveFetchLocal env)), snd (serveFetchLocal env),
      evs @ [ServeFetchLocal command])"

definition handleV2Command ::
  "world \<Rightarrow> cmdenv \<Rightarrow> managedRepository \<Rightarrow> ProtocolV2RequestChunk list \<Rightarrow> string
     \<Rightarrow> error option outcome \<times> string \<times> event list" where
  "handleV2Command w env repo command authentication =
     (case command of
        [] \<Rightarrow> (Panicked, [], [])
      | c0 # cs \<Rightarrow>
          if Command c0 = ''ls-refs'' then
            (case lsRefsUpstream env of
               Inl err \<Rightarrow> (Returned (Some err), [], [LsRefsUpstream command authentication])
             | Inr resp \<Rightarrow>
                 (case parseLsRefsResponse w resp of
                    Inl err \<Rightarrow> (Returned (Some err), [], [LsRefsUpstream command authentication])
                  | Inr refs \<Rightarrow>
                      (case hasAnyUpdate (localRepo env) (rangeOrder env refs) of
                         Inl err \<Rightarrow>
                           (Returned (Some err), [], [LsRefsUpstream command authentication])
                       | Inr hasUpdate \<Rightarrow>
                           (Returned None, writeResp w resp,
                            [LsRefsUpstream command authentication]
                            @ (if hasUpdate then [GoFetchUpstream authentication] else [])
                            @ [WriteResp resp]))))
          else if Command c0 = ''fetch'' then
            (case parseFetchWants w command of
               Inl err \<Rightarrow> (Returned (Some err), [], [])
             | Inr (wantHashes, wantRefs) \<Rightarrow>
                 (case hasAllWants (localRepo env) wantHashes wantRefs of
                    Inl err \<Rightarrow> (Returned (Some err), [], [])
                  | Inr hasAll \<Rightarrow>
                      if \<not> hasAll then
                        (case wantWaitLoop
                                (fst (fetchUpstream w (fetchRepo env) repo authentication))
                                wantHashes wantRefs (selects env) of
                           LoopReturn err \<Rightarrow> (Returned err, [], [GoFetchUpstream authentication])
                         | LoopWaiting \<Rightarrow> (Waiting, [], [GoFetchUpstream authentication])
                         | LoopBreak \<Rightarrow> serveLocal env command [GoFetchUpstream authentication])
                      else serveLocal env command []))
          else (Returned (Some (GoError ''unknown command'')), [], []))"

section \<open>The HTTP handlers (handlers.go)\<close>

text \<open>
  The request as the handlers read it: the URL, the header (canonical names), and for
  the body the error of \<^verbatim>\<open>gzip.NewReader\<close> and the result of \<^verbatim>\<open>parseAllCommands\<close>,
  which reads the body through the pkt-line scanner.
\<close>

record Request =
  reqURL :: URL
  Header :: "(string \<times> string) list"
  gzipNewReader :: "error option"
  parseAllCommands :: "error + ProtocolV2RequestChunk list list"

text \<open>\<^verbatim>\<open>Header.Get\<close>: the value, or the empty string when the header is absent.\<close>

definition Get :: "(string \<times> string) list \<Rightarrow> string \<Rightarrow> string" where
  "Get h key = (case map_of h key of None \<Rightarrow> [] | Some v \<Rightarrow> v)"

text \<open>
  \<^verbatim>\<open>goproxy.NewResponse(r, contentType, status, body)\<close>: a response whose only header is
  \<^verbatim>\<open>Content-Type\<close>.
\<close>

record Resp =
  StatusCode :: nat
  RespHeader :: "(string \<times> string) list"
  Body :: string

definition NewResponse :: "string \<Rightarrow> nat \<Rightarrow> string \<Rightarrow> Resp" where
  "NewResponse contentType status body =
     \<lparr>StatusCode = status, RespHeader = [(''Content-Type'', contentType)], Body = body\<rparr>"

definition ContentTypeText :: string where
  "ContentTypeText = ''text/plain''"

definition StatusOK :: nat where "StatusOK = 200"
definition StatusBadRequest :: nat where "StatusBadRequest = 400"
definition StatusUnauthorized :: nat where "StatusUnauthorized = 401"
definition StatusNotFound :: nat where "StatusNotFound = 404"
definition StatusInternalServerError :: nat where "StatusInternalServerError = 500"

fun writePackets :: "world \<Rightarrow> InfoRefsResponseChunk list \<Rightarrow> error + string" where
  "writePackets w [] = Inr []"
| "writePackets w (pkt # rest) =
     (case writePacket w pkt of
        Inl err \<Rightarrow> Inl err
      | Inr bs \<Rightarrow> (case writePackets w rest of
                     Inl err \<Rightarrow> Inl err
                   | Inr bs' \<Rightarrow> Inr (bs @ bs')))"

text \<open>
  \<^verbatim>\<open>handleInfoRefs\<close>: the response, or \<open>None\<close> where the handler returns \<^verbatim>\<open>nil\<close> and the
  proxy passes the request on to the upstream.
\<close>

definition handleInfoRefs :: "world \<Rightarrow> registry \<Rightarrow> Request \<Rightarrow> ServerConfig \<Rightarrow> Resp option" where
  "handleInfoRefs w managedRepos r cfg =
     (if QueryGet w (RawQuery (reqURL r)) ''service'' \<noteq> ''git-upload-pack''
      then Some (NewResponse ContentTypeText StatusBadRequest ''accepts only git-fetch'')
      else if \<not> managedRepositoryExists managedRepos cfg (reqURL r) then None
      else (case getManagedRepository managedRepos cfg (reqURL r) of
              None \<Rightarrow> Some (NewResponse ContentTypeText StatusInternalServerError
                              ''could not verify if repository exists'')
            | Some repository \<Rightarrow>
                if \<not> isPublic repository \<and> Get (Header r) ''Authorization'' = []
                then Some (NewResponse ContentTypeText StatusUnauthorized
                             ''unauthorized - please send basic auth credentials'')
                else (case writePackets w
                             [ProtocolVersion 2, Capabilities [''ls-refs''],
                              Capabilities [''fetch=filter shallow''],
                              Capabilities [''server-option''], EndOfRequest] of
                        Inl err \<Rightarrow> Some (NewResponse ContentTypeText StatusInternalServerError
                                           ''client IO error'')
                      | Inr b \<Rightarrow> Some (NewResponse ''application/x-git-upload-pack-advertisement''
                                         StatusOK b))))"

definition handleGitReceivePack :: "Request \<Rightarrow> Resp" where
  "handleGitReceivePack r =
     NewResponse ContentTypeText StatusBadRequest ''git-receive-pack is not supported''"

text \<open>
  The regular expression of \<^verbatim>\<open>handleGitUploadPack\<close>, written in the source as the raw
  string \<^verbatim>\<open>^Basic ([A-Za-z0-9\\+=]*)$\<close>: in the class, the two backslashes are an escaped
  backslash, so the class holds the letters, the digits, the backslash, \<open>+\<close> and \<open>=\<close>.
  \<^verbatim>\<open>FindString\<close> returns the text of the leftmost match, here the whole header when
  it matches, and the empty string when there is no match.
\<close>

definition basicAuthClass :: "char \<Rightarrow> bool" where
  "basicAuthClass c =
     (c \<in> set ''ABCDEFGHIJKLMNOPQRSTUVWXYZ'' \<or> c \<in> set ''abcdefghijklmnopqrstuvwxyz''
      \<or> c \<in> set ''0123456789'' \<or> c = CHR 0x5C \<or> c = CHR ''+'' \<or> c = CHR ''='')"

definition basicAuthMatch :: "string \<Rightarrow> bool" where
  "basicAuthMatch s = (HasPrefix s ''Basic '' \<and> list_all basicAuthClass (drop 6 s))"

definition FindString :: "string \<Rightarrow> string" where
  "FindString s = (if basicAuthMatch s then s else [])"

text \<open>The commands of a request, each with what it meets; the buffer collects the output.\<close>

fun commandLoop ::
  "world \<Rightarrow> (nat \<Rightarrow> cmdenv) \<Rightarrow> managedRepository \<Rightarrow> string \<Rightarrow> nat
     \<Rightarrow> ProtocolV2RequestChunk list list \<Rightarrow> error option outcome \<times> string \<times> event list" where
  "commandLoop w envs repository auth i [] = (Returned None, [], [])"
| "commandLoop w envs repository auth i (command # rest) =
     (case handleV2Command w (envs i) repository command auth of
        (Returned None, out, evs) \<Rightarrow>
          (case commandLoop w envs repository auth (Suc i) rest of
             (res, out', evs') \<Rightarrow> (res, out @ out', evs @ evs'))
      | (res, out, evs) \<Rightarrow> (res, out, evs))"

definition errorStatus :: "error \<Rightarrow> nat" where
  "errorStatus err =
     (let statusCode = StatusInternalServerError;
          statusCode = (if Contains (Error err) ''401'' then StatusUnauthorized else statusCode);
          statusCode = (if Contains (Error err) ''404'' then StatusNotFound else statusCode)
      in statusCode)"

text \<open>
  \<^verbatim>\<open>handleGitUploadPack\<close>: the response, the registry after the call and what was done.
\<close>

definition lookupOrCreate ::
  "registry \<Rightarrow> ServerConfig \<Rightarrow> URL \<Rightarrow> string \<Rightarrow> managedRepository \<times> registry" where
  "lookupOrCreate managedRepos cfg u auth =
     (case getManagedRepository managedRepos cfg u of
        Some repository \<Rightarrow> (repository, managedRepos)
      | None \<Rightarrow> createManagedRepository managedRepos cfg u auth)"

definition handleGitUploadPack ::
  "world \<Rightarrow> (nat \<Rightarrow> cmdenv) \<Rightarrow> registry \<Rightarrow> Request \<Rightarrow> ServerConfig
     \<Rightarrow> Resp outcome \<times> registry \<times> event list" where
  "handleGitUploadPack w envs managedRepos r cfg =
     (let auth = FindString (Get (Header r) ''Authorization'')
      in if Get (Header r) ''Content-Encoding'' = ''gzip'' \<and> gzipNewReader r \<noteq> None
         then (Returned (NewResponse ''application/x-git-upload-pack-result'' StatusBadRequest
                           (''cannot ungzip: '' @ Error (the (gzipNewReader r)))),
               managedRepos, [])
         else (case parseAllCommands r of
                 Inl err \<Rightarrow>
                   (Returned (NewResponse ''application/x-git-upload-pack-result'' StatusBadRequest
                                (''error while parsing commands: '' @ Error err)),
                    managedRepos, [])
               | Inr commands \<Rightarrow>
                   (let (repository, managedRepos') =
                          lookupOrCreate managedRepos cfg (reqURL r) auth;
                        opened = open_repo w repository
                    in (case fst opened of
                          Some err \<Rightarrow>
                            (Returned (NewResponse ''application/x-git-upload-pack-result''
                                         StatusBadRequest
                                         (''error while opening managed repository: '' @ Error err)),
                             managedRepos', map RunGit (snd opened))
                        | None \<Rightarrow>
                            (case commandLoop w envs repository auth 0 commands of
                               (Returned None, out, evs) \<Rightarrow>
                                 (Returned (NewResponse ''application/x-git-upload-pack-result''
                                              StatusOK out),
                                  managedRepos', map RunGit (snd opened) @ evs)
                             | (Returned (Some err), out, evs) \<Rightarrow>
                                 (Returned (NewResponse ''application/x-git-upload-pack-result''
                                              (errorStatus err)
                                              (''error while processing commands: '' @ Error err)),
                                  managedRepos', map RunGit (snd opened) @ evs)
                             | (Waiting, out, evs) \<Rightarrow>
                                 (Waiting, managedRepos', map RunGit (snd opened) @ evs)
                             | (Panicked, out, evs) \<Rightarrow>
                                 (Panicked, managedRepos', map RunGit (snd opened) @ evs))))))"

section \<open>Concrete inputs\<close>

text \<open>
  A world to run the model in. The library functions are given for the inputs used below:
  white space is trimmed for ASCII, a hash is decoded from its hexadecimal name (the bytes
  before the first character that is no hexadecimal digit, cut or zero-padded to twenty),
  a URL is printed as scheme, host and path, a query of one unescaped parameter is read,
  packets are written in pkt-line framing. Every git command succeeds and every path exists.
\<close>

definition asciiSpace :: "char \<Rightarrow> bool" where
  "asciiSpace c = (c \<in> set [CHR 0x09, CHR 0x0A, CHR 0x0B, CHR 0x0C, CHR 0x0D, CHR '' ''])"

definition asciiTrimSpace :: "string \<Rightarrow> string" where
  "asciiTrimSpace s = rev (dropWhile asciiSpace (rev (dropWhile asciiSpace s)))"

definition hexVal :: "char \<Rightarrow> nat option" where
  "hexVal c = map_of (zip ''0123456789abcdef'' [0 ..< 16] @ zip ''ABCDEF'' [10 ..< 16]) c"

fun decodeHex :: "string \<Rightarrow> string" where
  "decodeHex (p # q # rest) =
     (case (hexVal p, hexVal q) of
        (Some a, Some b) \<Rightarrow> char_of (16 * a + b) # decodeHex rest
      | _ \<Rightarrow> [])"
| "decodeHex s = []"

definition hexNewHash :: "string \<Rightarrow> Hash" where
  "hexNewHash s = take 20 (decodeHex s @ replicate 20 (CHR 0x00))"

definition hexDigit :: "nat \<Rightarrow> char" where
  "hexDigit n = ''0123456789abcdef'' ! (n mod 16)"

definition pktLine :: "string \<Rightarrow> string" where
  "pktLine s =
     (let n = length s + 4
      in [hexDigit (n div 4096), hexDigit (n div 256), hexDigit (n div 16), hexDigit n] @ s)"

fun pktInfoRefs :: "InfoRefsResponseChunk \<Rightarrow> error + string" where
  "pktInfoRefs (ProtocolVersion n) = Inr (pktLine (''version '' @ itoa n @ ''\<newline>''))"
| "pktInfoRefs (Capabilities cs) = Inr (concat (map (\<lambda>c. pktLine (c @ ''\<newline>'')) cs))"
| "pktInfoRefs EndOfRequest = Inr ''0000''"

definition pktResponse :: "ProtocolV2ResponseChunk \<Rightarrow> string" where
  "pktResponse ch =
     (if EndResponse ch then ''0000''
      else (case Response ch of Some s \<Rightarrow> pktLine s | None \<Rightarrow> []))"

definition singleQueryGet :: "string \<Rightarrow> string \<Rightarrow> string" where
  "singleQueryGet q k = (if HasPrefix q (k @ ''='') then drop (length k + 1) q else [])"

definition exampleWorld :: world where
  "exampleWorld =
     \<lparr>gitBinary = ''/usr/bin/git'',
      Run = (\<lambda>cmd. None),
      Stat = (\<lambda>path. None),
      MkdirAll = (\<lambda>path. None),
      URLString = (\<lambda>u. Scheme u @ ''://'' @ Host u @ Path u),
      QueryGet = singleQueryGet,
      NewHash = hexNewHash,
      TrimSpace = asciiTrimSpace,
      writePacket = pktInfoRefs,
      writeResp = (\<lambda>chunks. concat (map pktResponse chunks))\<rparr>"

text \<open>A world in which the cache directory does not exist yet and every git command fails.\<close>

definition brokenGitWorld :: world where
  "brokenGitWorld =
     exampleWorld\<lparr>Run := (\<lambda>cmd. Some (GoError ''exit status 128'')),
                   Stat := (\<lambda>path. Some (ErrNotExist (''stat '' @ path @ '': no such file or directory'')))\<rparr>"

definition exampleConfig :: ServerConfig where
  "exampleConfig = \<lparr>LocalDiskCacheRoot = ''/cache''\<rparr>"

definition uploadPackURL :: URL where
  "uploadPackURL =
     zeroURL\<lparr>Scheme := ''https'', Host := ''example.invalid'', Path := ''/private/r.git/git-upload-pack''\<rparr>"

definition infoRefsURL :: URL where
  "infoRefsURL =
     zeroURL\<lparr>Scheme := ''https'', Host := ''example.invalid'', Path := ''/private/r.git/info/refs'',
             RawQuery := ''service=git-upload-pack''\<rparr>"

text \<open>The mirror and the registry after a first request with the credential \<open>Basic QQ==\<close>.\<close>

definition privateMirror :: managedRepository where
  "privateMirror = fst (createManagedRepository Map.empty exampleConfig uploadPackURL ''Basic QQ=='')"

definition privateRegistry :: registry where
  "privateRegistry = snd (createManagedRepository Map.empty exampleConfig uploadPackURL ''Basic QQ=='')"

text \<open>An \<^verbatim>\<open>info/refs\<close> request without an \<^verbatim>\<open>Authorization\<close> header.\<close>

definition infoRefsRequest :: Request where
  "infoRefsRequest =
     \<lparr>reqURL = infoRefsURL, Header = [(''Git-Protocol'', ''version=2'')],
      gzipNewReader = None, parseAllCommands = Inr []\<rparr>"

text \<open>
  A local repository without any object or reference, and one that holds the object
  \<open>aaaa...\<close> under \<open>refs/heads/main\<close> and \<open>HEAD\<close>.
\<close>

definition emptyGit :: gitrepo where
  "emptyGit =
     \<lparr>PlainOpen = None,
      Reference = (\<lambda>name. Inl ErrReferenceNotFound),
      Object = (\<lambda>h. Some ErrObjectNotFound)\<rparr>"

definition hashA :: Hash where
  "hashA = hexNewHash ''aaaaaaaaaaaaaaaaaaaaaaaaaaaaaaaaaaaaaaaa''"

definition fetchedGit :: gitrepo where
  "fetchedGit =
     \<lparr>PlainOpen = None,
      Reference = (\<lambda>name. if name = ''refs/heads/main'' \<or> name = ''HEAD'' then Inr hashA
                           else Inl ErrReferenceNotFound),
      Object = (\<lambda>h. if h = hashA then None else Some ErrObjectNotFound)\<rparr>"

text \<open>A fetch command with one want, and an ls-refs command.\<close>

definition fetchCommand :: "ProtocolV2RequestChunk list" where
  "fetchCommand =
     [\<lparr>Command = ''fetch'', Argument = None, EndRequest = False\<rparr>,
      \<lparr>Command = [], Argument = Some ''want aaaaaaaaaaaaaaaaaaaaaaaaaaaaaaaaaaaaaaaa\<newline>'',
       EndRequest = False\<rparr>]"

definition lsRefsCommand :: "ProtocolV2RequestChunk list" where
  "lsRefsCommand = [\<lparr>Command = ''ls-refs'', Argument = None, EndRequest = False\<rparr>]"

definition advertisement :: "ProtocolV2ResponseChunk list" where
  "advertisement =
     [\<lparr>Response = Some ''aaaaaaaaaaaaaaaaaaaaaaaaaaaaaaaaaaaaaaaa refs/heads/main\<newline>'',
       EndResponse = False\<rparr>,
      \<lparr>Response = None, EndResponse = True\<rparr>]"

text \<open>
  What a command meets: the upstream answers with the advertisement; the local repository
  is empty when the command starts; the fetch task finishes first. In \<open>staleEnv\<close> the
  upstream does not have the wanted object, so the repository is still empty when the fetch
  is done; in \<open>freshEnv\<close> a timer tick comes first and the fetch has brought the object.
\<close>

definition staleEnv :: cmdenv where
  "staleEnv =
     \<lparr>lsRefsUpstream = Inr advertisement, rangeOrder = (\<lambda>refs. refs),
      localRepo = emptyGit, fetchRepo = emptyGit,
      selects = [(FetchDone, emptyGit)],
      serveFetchLocal = (None, ''0000'')\<rparr>"

definition freshEnv :: cmdenv where
  "freshEnv = staleEnv\<lparr>selects := [(TimerC, emptyGit), (FetchDone, fetchedGit)]\<rparr>"

text \<open>
  An upload-pack request whose credential is the Base64 of \<open>a:???\<close>, which holds a slash.
\<close>

definition slashRequest :: Request where
  "slashRequest =
     \<lparr>reqURL = uploadPackURL,
      Header = [(''Authorization'', ''Basic YTo/Pz8=''), (''Git-Protocol'', ''version=2'')],
      gzipNewReader = None, parseAllCommands = Inr [lsRefsCommand]\<rparr>"

text \<open>
  A first request without a credential, to another repository, and the mirror it creates.
\<close>

definition publicURL :: URL where
  "publicURL =
     zeroURL\<lparr>Scheme := ''https'', Host := ''example.invalid'', Path := ''/org/repo.git/git-upload-pack''\<rparr>"

definition publicMirror :: managedRepository where
  "publicMirror = fst (createManagedRepository Map.empty exampleConfig publicURL [])"

text \<open>An upload-pack request with the credential \<open>Basic QQ==\<close> and one ls-refs command.\<close>

definition basicRequest :: Request where
  "basicRequest =
     \<lparr>reqURL = uploadPackURL,
      Header = [(''Authorization'', ''Basic QQ==''), (''Git-Protocol'', ''version=2'')],
      gzipNewReader = None, parseAllCommands = Inr [lsRefsCommand]\<rparr>"

text \<open>Every command of a request meets \<open>staleEnv\<close>.\<close>

definition staleEnvs :: "nat \<Rightarrow> cmdenv" where
  "staleEnvs i = staleEnv"

text \<open>A header whose token holds a backslash: the word \<^verbatim>\<open>Basic\<close>, a blank, and \<^verbatim>\<open>a\b\<close>.\<close>

definition backslashHeader :: string where
  "backslashHeader = ''Basic a'' @ [CHR 0x5C] @ ''b''"







section \<open>The credential pattern as the specification writes it\<close>

text \<open>
  The specification gives the pattern as \<^verbatim>\<open>^Basic ([A-Za-z0-9+=]*)$\<close>: the class without the
  backslash. These two definitions follow the specification's words, for comparison with
  \<open>basicAuthMatch\<close>, which follows the source.
\<close>

definition specBasicAuthClass :: "char \<Rightarrow> bool" where
  "specBasicAuthClass c =
     (c \<in> set ''ABCDEFGHIJKLMNOPQRSTUVWXYZ'' \<or> c \<in> set ''abcdefghijklmnopqrstuvwxyz''
      \<or> c \<in> set ''0123456789'' \<or> c = CHR ''+'' \<or> c = CHR ''='')"

definition specBasicAuthMatch :: "string \<Rightarrow> bool" where
  "specBasicAuthMatch s = (HasPrefix s ''Basic '' \<and> list_all specBasicAuthClass (drop 6 s))"

section \<open>Facts about the library functions and the loops\<close>

lemma specBasicAuthClass_code: "specBasicAuthClass c \<Longrightarrow> basicAuthClass c"
  unfolding specBasicAuthClass_def basicAuthClass_def by blast

lemma specBasicAuthMatch_code: "specBasicAuthMatch s \<Longrightarrow> basicAuthMatch s"
  unfolding specBasicAuthMatch_def basicAuthMatch_def list_all_iff
  using specBasicAuthClass_code by blast

lemma lookupOrCreate_new:
  "getManagedRepository managedRepos cfg u = None \<Longrightarrow>
   lookupOrCreate managedRepos cfg u auth = createManagedRepository managedRepos cfg u auth"
  by (simp add: lookupOrCreate_def)

lemma handleGitUploadPack_registry:
  assumes "\<not> (Get (Header r) ''Content-Encoding'' = ''gzip'' \<and> gzipNewReader r \<noteq> None)"
    and "parseAllCommands r = Inr commands"
  shows "fst (snd (handleGitUploadPack w envs managedRepos r cfg))
         = snd (lookupOrCreate managedRepos cfg (reqURL r)
                  (FindString (Get (Header r) ''Authorization'')))"
  using assms
  by (auto simp: handleGitUploadPack_def Let_def
      split: prod.splits option.splits outcome.splits sum.splits)



lemma advertisement_parsed:
  "parseLsRefsResponse exampleWorld advertisement = Inr [(''refs/heads/main'', hashA)]"
  by (simp add: parseLsRefsResponse_def advertisement_def exampleWorld_def hashA_def
      asciiTrimSpace_def asciiSpace_def Let_def)



lemma handleV2Command_ls_refs:
  assumes "command = c0 # cs" and "Command c0 = ''ls-refs''"
    and "lsRefsUpstream env = Inr resp" and "parseLsRefsResponse w resp = Inr refs"
  shows "handleV2Command w env repo command auth
         = (case hasAnyUpdate (localRepo env) (rangeOrder env refs) of
              Inl err \<Rightarrow> (Returned (Some err), [], [LsRefsUpstream command auth])
            | Inr hasUpdate \<Rightarrow>
                (Returned None, writeResp w resp,
                 [LsRefsUpstream command auth]
                 @ (if hasUpdate then [GoFetchUpstream auth] else [])
                 @ [WriteResp resp]))"
  using assms by (simp add: handleV2Command_def split: sum.splits)

lemma staleEnv_ls_refs:
  "handleV2Command exampleWorld staleEnv repo lsRefsCommand auth
     = (Returned None, writeResp exampleWorld advertisement,
        [LsRefsUpstream lsRefsCommand auth, GoFetchUpstream auth, WriteResp advertisement])"
proof -
  have cmd: "lsRefsCommand = \<lparr>Command = ''ls-refs'', Argument = None, EndRequest = False\<rparr> # []"
    "Command \<lparr>Command = ''ls-refs'', Argument = None, EndRequest = False\<rparr> = ''ls-refs''"
    by (simp_all add: lsRefsCommand_def)
  have up: "lsRefsUpstream staleEnv = Inr advertisement" by (simp add: staleEnv_def)
  show ?thesis
    unfolding handleV2Command_ls_refs [OF cmd up advertisement_parsed]
    by (simp add: hasAnyUpdate_def staleEnv_def emptyGit_def)
qed

lemma privateRegistry_lookup:
  "privateRegistry (localDiskPath privateMirror) = Some privateMirror
   \<and> accessList privateMirror = [''Basic QQ==''] \<and> \<not> isPublic privateMirror"
  by (simp add: privateRegistry_def privateMirror_def createManagedRepository_def Let_def)

lemma handleV2Command_events_auth:
  assumes "ev \<in> set (snd (snd (handleV2Command w env repo command auth)))"
    and "ev = LsRefsUpstream c a \<or> ev = GoFetchUpstream a"
  shows "a = auth"
  using assms
  by (auto simp: handleV2Command_def serveLocal_def
      split: list.splits sum.splits if_splits loopExit.splits prod.splits)

lemma commandLoop_events_auth:
  assumes "ev \<in> set (snd (snd (commandLoop w envs repo auth i commands)))"
    and "ev = LsRefsUpstream c a \<or> ev = GoFetchUpstream a"
  shows "a = auth"
  using assms
proof (induction commands arbitrary: i)
  case Nil
  then show ?case by simp
next
  case (Cons command rest)
  obtain res out evs where h: "handleV2Command w (envs i) repo command auth = (res, out, evs)"
    by (cases "handleV2Command w (envs i) repo command auth")
  obtain res' out' evs' where l: "commandLoop w envs repo auth (Suc i) rest = (res', out', evs')"
    by (cases "commandLoop w envs repo auth (Suc i) rest")
  from Cons.prems(1) h l have "ev \<in> set evs \<or> ev \<in> set evs'"
    by (auto split: outcome.splits option.splits)
  then show ?case
  proof
    assume "ev \<in> set evs"
    with h handleV2Command_events_auth [of ev w "envs i" repo command auth c a] Cons.prems(2)
    show ?thesis by simp
  next
    assume "ev \<in> set evs'"
    with l Cons.IH [of "Suc i"] Cons.prems(2) show ?thesis by simp
  qed
qed

lemma handleGitUploadPack_events:
  assumes "\<not> (Get (Header r) ''Content-Encoding'' = ''gzip'' \<and> gzipNewReader r \<noteq> None)"
    and "parseAllCommands r = Inr commands"
    and "repository = fst (lookupOrCreate managedRepos cfg (reqURL r)
                             (FindString (Get (Header r) ''Authorization'')))"
  shows "snd (snd (handleGitUploadPack w envs managedRepos r cfg))
         = (if fst (open_repo w repository) = None
            then map RunGit (snd (open_repo w repository))
                 @ snd (snd (commandLoop w envs repository
                               (FindString (Get (Header r) ''Authorization'')) 0 commands))
            else map RunGit (snd (open_repo w repository)))"
  using assms
  by (auto simp: handleGitUploadPack_def Let_def
      split: prod.splits option.splits outcome.splits sum.splits)

lemma fetchUpstream_mirror_unchanged:
  "fst (snd (fetchUpstream w g r authentication)) = r"
  by (simp add: fetchUpstream_def Let_def split: option.splits)

lemma wantWaitLoop_ticks:
  assumes "\<forall>(s, g') \<in> set ticks. s = TimerC \<and> hasAllWants g' wantHashes wantRefs = Inr False"
  shows "wantWaitLoop fetchErr wantHashes wantRefs (ticks @ rest)
         = wantWaitLoop fetchErr wantHashes wantRefs rest"
  using assms by (induction ticks) auto

lemma fetchCommand_wants:
  "parseFetchWants exampleWorld fetchCommand = Inr ([hashA], [])"
  by (simp add: parseFetchWants_def fetchCommand_def exampleWorld_def hashA_def HasPrefix_def
      asciiTrimSpace_def asciiSpace_def Let_def)

lemma emptyGit_wants: "hasAllWants emptyGit [hashA] [] = Inr False"
  by (simp add: hasAllWants_def emptyGit_def)

lemma fetchedGit_wants: "hasAllWants fetchedGit [hashA] [] = Inr True"
  by (simp add: hasAllWants_def fetchedGit_def)

lemma handleV2Command_fetch_wait:
  assumes "command = c0 # cs" and "Command c0 = ''fetch''"
    and "parseFetchWants w command = Inr (wantHashes, wantRefs)"
    and "hasAllWants (localRepo env) wantHashes wantRefs = Inr False"
  shows "handleV2Command w env repo command auth
         = (case wantWaitLoop (fst (fetchUpstream w (fetchRepo env) repo auth))
                   wantHashes wantRefs (selects env) of
              LoopReturn err \<Rightarrow> (Returned err, [], [GoFetchUpstream auth])
            | LoopWaiting \<Rightarrow> (Waiting, [], [GoFetchUpstream auth])
            | LoopBreak \<Rightarrow> serveLocal env command [GoFetchUpstream auth])"
proof -
  have neq: "''fetch'' \<noteq> ''ls-refs''" by simp
  show ?thesis using assms neq by (simp add: handleV2Command_def split: loopExit.splits)
qed

section \<open>The want-wait loop of the fetch command\<close>

text \<open>
  Claim C1, as the code has it. The wants are not all present when the fetch command starts;
  the \<^verbatim>\<open>select\<close> statement takes some timer ticks at which they are still missing, and
  then the \<^verbatim>\<open>fetchDone\<close> case. There \<^verbatim>\<open>hasAllWants\<close> is evaluated again, on the
  repository as it is at that moment. If the wants are now present, the loop is left and
  \<^verbatim>\<open>serveFetchLocal\<close> runs: the command returns what \<^verbatim>\<open>git upload-pack\<close> returned. If
  they are still missing, \<^verbatim>\<open>handleV2Command\<close> itself returns the value the fetch task
  sent, nothing is written and \<^verbatim>\<open>serveFetchLocal\<close> is not run.
\<close>

theorem fetch_done_reevaluates_wants:
  assumes "command = c0 # cs" and "Command c0 = ''fetch''"
    and "parseFetchWants w command = Inr (wantHashes, wantRefs)"
    and "hasAllWants (localRepo env) wantHashes wantRefs = Inr False"
    and "selects env = ticks @ (FetchDone, g) # rest"
    and "\<forall>(s, g') \<in> set ticks. s = TimerC \<and> hasAllWants g' wantHashes wantRefs = Inr False"
  shows "(hasAllWants g wantHashes wantRefs = Inr True \<longrightarrow>
            handleV2Command w env repo command auth
              = (Returned (fst (serveFetchLocal env)), snd (serveFetchLocal env),
                 [GoFetchUpstream auth, ServeFetchLocal command]))
       \<and> (hasAllWants g wantHashes wantRefs = Inr False \<longrightarrow>
            handleV2Command w env repo command auth
              = (Returned (fst (fetchUpstream w (fetchRepo env) repo auth)), [],
                 [GoFetchUpstream auth]))"
proof -
  have loop: "wantWaitLoop fe wantHashes wantRefs (selects env)
              = wantWaitLoop fe wantHashes wantRefs ((FetchDone, g) # rest)" for fe
    unfolding assms(5) using wantWaitLoop_ticks [OF assms(6)] by simp
  show ?thesis
    unfolding handleV2Command_fetch_wait [OF assms(1-4)] loop
    by (simp add: serveLocal_def)
qed

theorem fetch_done_reevaluates_wants_witness:
  "handleV2Command exampleWorld freshEnv privateMirror fetchCommand ''Basic QQ==''
     = (Returned None, ''0000'', [GoFetchUpstream ''Basic QQ=='', ServeFetchLocal fetchCommand])
   \<and> handleV2Command exampleWorld (freshEnv\<lparr>selects := [(TimerC, emptyGit), (FetchDone, emptyGit)]\<rparr>)
        privateMirror fetchCommand ''Basic QQ==''
     = (Returned (fst (fetchUpstream exampleWorld emptyGit privateMirror ''Basic QQ=='')), [],
        [GoFetchUpstream ''Basic QQ==''])"
proof -
  let ?c0 = "\<lparr>Command = ''fetch'', Argument = None, EndRequest = False\<rparr>"
  let ?cs = "[\<lparr>Command = [], Argument = Some ''want aaaaaaaaaaaaaaaaaaaaaaaaaaaaaaaaaaaaaaaa\<newline>'',
                 EndRequest = False\<rparr>]"
  let ?env2 = "freshEnv\<lparr>selects := [(TimerC, emptyGit), (FetchDone, emptyGit)]\<rparr>"
  have c: "fetchCommand = ?c0 # ?cs" "Command ?c0 = ''fetch''"
    by (simp_all add: fetchCommand_def)
  have l: "hasAllWants (localRepo freshEnv) [hashA] [] = Inr False"
    "hasAllWants (localRepo ?env2) [hashA] [] = Inr False"
    by (simp_all add: freshEnv_def staleEnv_def emptyGit_wants)
  have s: "selects freshEnv = [(TimerC, emptyGit)] @ (FetchDone, fetchedGit) # []"
    "selects ?env2 = [(TimerC, emptyGit)] @ (FetchDone, emptyGit) # []"
    by (simp_all add: freshEnv_def)
  have t: "\<forall>(s, g') \<in> set [(TimerC, emptyGit)]. s = TimerC \<and> hasAllWants g' [hashA] [] = Inr False"
    by (simp add: emptyGit_wants)
  have v: "serveFetchLocal freshEnv = (None, ''0000'')" "fetchRepo ?env2 = emptyGit"
    by (simp_all add: freshEnv_def staleEnv_def)
  from fetch_done_reevaluates_wants [OF c fetchCommand_wants l(1) s(1) t, of privateMirror "''Basic QQ==''"]
    fetchedGit_wants v
  have 1: "handleV2Command exampleWorld freshEnv privateMirror fetchCommand ''Basic QQ==''
     = (Returned None, ''0000'', [GoFetchUpstream ''Basic QQ=='', ServeFetchLocal fetchCommand])"
    by simp
  from fetch_done_reevaluates_wants [OF c fetchCommand_wants l(2) s(2) t, of privateMirror "''Basic QQ==''"]
    emptyGit_wants v
  have 2: "handleV2Command exampleWorld ?env2 privateMirror fetchCommand ''Basic QQ==''
     = (Returned (fst (fetchUpstream exampleWorld emptyGit privateMirror ''Basic QQ=='')), [],
        [GoFetchUpstream ''Basic QQ==''])"
    by simp
  from 1 2 show ?thesis by blast
qed

text \<open>
  The statement that local serve still runs when the fetch ended without error and the
  wants are missing does not hold. A request without a credential wants an object the
  upstream does not have: every git command succeeds, the object is still absent when the
  fetch is done. The command returns
  \<^verbatim>\<open>nil\<close> with an empty output, and \<^verbatim>\<open>git upload-pack\<close> was not started.
\<close>

theorem fetch_done_unsatisfied_nil_counterexample:
  "fst (fetchUpstream exampleWorld (fetchRepo staleEnv) publicMirror []) = None
   \<and> selects staleEnv = [(FetchDone, emptyGit)]
   \<and> hasAllWants emptyGit [hashA] [] = Inr False
   \<and> handleV2Command exampleWorld staleEnv publicMirror fetchCommand []
       = (Returned None, [], [GoFetchUpstream []])
   \<and> ServeFetchLocal fetchCommand
       \<notin> set (snd (snd (handleV2Command exampleWorld staleEnv publicMirror fetchCommand [])))"
proof -
  have f: "fst (fetchUpstream exampleWorld (fetchRepo staleEnv) publicMirror []) = None"
    by (simp add: fetchUpstream_def staleEnv_def emptyGit_def exampleWorld_def runGit_def Let_def)
  have s: "selects staleEnv = [(FetchDone, emptyGit)]" "localRepo staleEnv = emptyGit"
    by (simp_all add: staleEnv_def)
  have c: "fetchCommand = \<lparr>Command = ''fetch'', Argument = None, EndRequest = False\<rparr>
             # [\<lparr>Command = [], Argument = Some ''want aaaaaaaaaaaaaaaaaaaaaaaaaaaaaaaaaaaaaaaa\<newline>'',
                 EndRequest = False\<rparr>]"
    by (simp add: fetchCommand_def)
  have h: "handleV2Command exampleWorld staleEnv publicMirror fetchCommand []
       = (Returned None, [], [GoFetchUpstream []])"
    using handleV2Command_fetch_wait [OF c _ fetchCommand_wants, of staleEnv publicMirror "[]"]
    by (simp add: s emptyGit_wants f)
  from f s(1) emptyGit_wants h show ?thesis by simp
qed

section \<open>The time of the last update\<close>

text \<open>
  Claim C2. The mirror keeps a field for the time of its last update and
  \<^verbatim>\<open>LastUpdateTime\<close> reads it, but \<^verbatim>\<open>fetchUpstream\<close> does not write it. On the mirror
  of a first request without a credential, with no \<^verbatim>\<open>HEAD\<close> yet, both \<^verbatim>\<open>git fetch\<close>
  commands run and succeed, \<^verbatim>\<open>fetchUpstream\<close> returns \<^verbatim>\<open>nil\<close>, and the time read
  afterwards is still the zero time the mirror was created with.
\<close>

theorem fetchUpstream_lastUpdate_unrecorded:
  "fst (fetchUpstream exampleWorld emptyGit publicMirror []) = None
   \<and> map Args (snd (snd (fetchUpstream exampleWorld emptyGit publicMirror [])))
       = [[''/usr/bin/git'', ''fetch'', ''--progress'', ''-f'', ''-n'', ''origin'',
           ''refs/heads/*:refs/heads/*'', ''refs/changes/*:refs/changes/*''],
          [''/usr/bin/git'', ''fetch'', ''--progress'', ''-f'', ''origin'']]
   \<and> LastUpdateTime publicMirror = zeroTime
   \<and> LastUpdateTime (fst (snd (fetchUpstream exampleWorld emptyGit publicMirror []))) = zeroTime"
proof -
  have a: "fst (fetchUpstream exampleWorld emptyGit publicMirror []) = None"
    by (simp add: fetchUpstream_def emptyGit_def exampleWorld_def runGit_def Let_def)
  have b: "map Args (snd (snd (fetchUpstream exampleWorld emptyGit publicMirror [])))
       = [[''/usr/bin/git'', ''fetch'', ''--progress'', ''-f'', ''-n'', ''origin'',
           ''refs/heads/*:refs/heads/*'', ''refs/changes/*:refs/changes/*''],
          [''/usr/bin/git'', ''fetch'', ''--progress'', ''-f'', ''origin'']]"
    by (simp add: fetchUpstream_def emptyGit_def exampleWorld_def runGit_def gitCmd_def Let_def)
  have c: "LastUpdateTime publicMirror = zeroTime"
    by (simp add: publicMirror_def createManagedRepository_def LastUpdateTime_def Let_def)
  from a b c show ?thesis by (simp add: fetchUpstream_mirror_unchanged)
qed

section \<open>Creating a mirror\<close>

text \<open>
  Claim C3. A mirror created with a non-empty credential is not public and its access
  list is that credential alone; a mirror created with the empty credential is public and
  its access list is empty. The mirror is stored in the registry under the local path of
  the canonical URL.
\<close>

theorem createManagedRepository_access:
  "(auth \<noteq> [] \<longrightarrow>
      \<not> isPublic (fst (createManagedRepository managedRepos cfg u auth))
      \<and> accessList (fst (createManagedRepository managedRepos cfg u auth)) = [auth])
   \<and> (auth = [] \<longrightarrow>
      isPublic (fst (createManagedRepository managedRepos cfg u auth))
      \<and> accessList (fst (createManagedRepository managedRepos cfg u auth)) = [])
   \<and> snd (createManagedRepository managedRepos cfg u auth)
        (getLocalGitRepositoryPath cfg (urlFixer u))
      = Some (fst (createManagedRepository managedRepos cfg u auth))"
  by (simp add: createManagedRepository_def Let_def)

theorem createManagedRepository_access_witness:
  "\<not> isPublic (fst (createManagedRepository Map.empty exampleConfig uploadPackURL ''Basic QQ==''))
   \<and> accessList (fst (createManagedRepository Map.empty exampleConfig uploadPackURL ''Basic QQ==''))
       = [''Basic QQ=='']
   \<and> isPublic (fst (createManagedRepository Map.empty exampleConfig uploadPackURL []))
   \<and> accessList (fst (createManagedRepository Map.empty exampleConfig uploadPackURL [])) = []"
  using createManagedRepository_access [of "''Basic QQ==''" Map.empty exampleConfig uploadPackURL]
    createManagedRepository_access [of "[]" Map.empty exampleConfig uploadPackURL]
  by simp

section \<open>The credential of an upload-pack request\<close>

text \<open>
  Claim C4, as the code has it. For an upload-pack request whose body is read and parsed,
  the credential is \<^verbatim>\<open>FindString\<close> of the regular expression on the \<^verbatim>\<open>Authorization\<close>
  header: the whole header, the word \<^verbatim>\<open>Basic\<close> and the blank included, when the header
  matches the expression of the source, and the empty string otherwise; every header that
  matches \<^verbatim>\<open>^Basic ([A-Za-z0-9+=]*)$\<close> matches the expression of the source. This
  credential is the one the handler uses: the registry after the request is the one
  lookup-or-create gives for it, a mirror created by the request has it as its sole access
  list entry (none when it is empty), and once the mirror is opened the handler does what
  the command loop does with it, so that every request to the upstream and every fetch task
  started by the request carries it.
\<close>

theorem upload_pack_credential:
  assumes "\<not> (Get (Header r) ''Content-Encoding'' = ''gzip'' \<and> gzipNewReader r \<noteq> None)"
    and "parseAllCommands r = Inr commands"
    and "header = Get (Header r) ''Authorization''"
    and "cred = (if basicAuthMatch header then header else [])"
    and "repository = fst (lookupOrCreate managedRepos cfg (reqURL r) cred)"
  shows "(specBasicAuthMatch header \<longrightarrow> cred = header)
    \<and> (\<not> basicAuthMatch header \<longrightarrow> cred = [])
    \<and> fst (snd (handleGitUploadPack w envs managedRepos r cfg))
        = snd (lookupOrCreate managedRepos cfg (reqURL r) cred)
    \<and> (getManagedRepository managedRepos cfg (reqURL r) = None \<longrightarrow>
          repository = fst (createManagedRepository managedRepos cfg (reqURL r) cred)
          \<and> isPublic repository = (cred = [])
          \<and> accessList repository = (if cred = [] then [] else [cred]))
    \<and> (fst (open_repo w repository) = None \<longrightarrow>
          snd (snd (handleGitUploadPack w envs managedRepos r cfg))
            = map RunGit (snd (open_repo w repository))
              @ snd (snd (commandLoop w envs repository cred 0 commands)))
    \<and> (\<forall>c a. LsRefsUpstream c a \<in> set (snd (snd (handleGitUploadPack w envs managedRepos r cfg)))
              \<or> GoFetchUpstream a \<in> set (snd (snd (handleGitUploadPack w envs managedRepos r cfg)))
          \<longrightarrow> a = cred)"
proof -
  have fs: "FindString (Get (Header r) ''Authorization'') = cred"
    using assms(3,4) by (simp add: FindString_def)
  note evs = handleGitUploadPack_events [OF assms(1,2), of repository managedRepos cfg w envs,
      unfolded fs, OF assms(5)]
  have 1: "specBasicAuthMatch header \<longrightarrow> cred = header"
    using specBasicAuthMatch_code [of header] assms(4) by simp
  have 2: "\<not> basicAuthMatch header \<longrightarrow> cred = []"
    using assms(4) by simp
  have 3: "fst (snd (handleGitUploadPack w envs managedRepos r cfg))
        = snd (lookupOrCreate managedRepos cfg (reqURL r) cred)"
    using handleGitUploadPack_registry [OF assms(1,2)] fs by simp
  have 4: "getManagedRepository managedRepos cfg (reqURL r) = None \<longrightarrow>
          repository = fst (createManagedRepository managedRepos cfg (reqURL r) cred)
          \<and> isPublic repository = (cred = [])
          \<and> accessList repository = (if cred = [] then [] else [cred])"
    using assms(5) by (simp add: lookupOrCreate_def createManagedRepository_def Let_def)
  have 5: "fst (open_repo w repository) = None \<longrightarrow>
          snd (snd (handleGitUploadPack w envs managedRepos r cfg))
            = map RunGit (snd (open_repo w repository))
              @ snd (snd (commandLoop w envs repository cred 0 commands))"
    using evs by simp
  have 6: "a = cred"
    if "LsRefsUpstream c a \<in> set (snd (snd (handleGitUploadPack w envs managedRepos r cfg)))
        \<or> GoFetchUpstream a \<in> set (snd (snd (handleGitUploadPack w envs managedRepos r cfg)))"
    for c a
  proof -
    from that obtain ev where ev: "ev \<in> set (snd (snd (handleGitUploadPack w envs managedRepos r cfg)))"
      "ev = LsRefsUpstream c a \<or> ev = GoFetchUpstream a" by blast
    from ev(2) have "ev \<notin> set (map RunGit (snd (open_repo w repository)))" by auto
    with ev(1) evs have "ev \<in> set (snd (snd (commandLoop w envs repository cred 0 commands)))"
      by (auto split: if_splits)
    from commandLoop_events_auth [OF this ev(2)] show ?thesis .
  qed
  from 1 2 3 4 5 6 show ?thesis by blast
qed

theorem upload_pack_credential_witness:
  "specBasicAuthMatch ''Basic QQ==''
   \<and> Get (Header basicRequest) ''Authorization'' = ''Basic QQ==''
   \<and> getManagedRepository Map.empty exampleConfig (reqURL basicRequest) = None
   \<and> fst (open_repo exampleWorld privateMirror) = None
   \<and> fst (snd (handleGitUploadPack exampleWorld staleEnvs Map.empty basicRequest exampleConfig))
       = privateRegistry
   \<and> accessList privateMirror = [''Basic QQ=='']
   \<and> snd (snd (handleGitUploadPack exampleWorld staleEnvs Map.empty basicRequest exampleConfig))
       = [LsRefsUpstream lsRefsCommand ''Basic QQ=='', GoFetchUpstream ''Basic QQ=='',
          WriteResp advertisement]"
proof -
  have a: "\<not> (Get (Header basicRequest) ''Content-Encoding'' = ''gzip''
              \<and> gzipNewReader basicRequest \<noteq> None)"
    by (simp add: basicRequest_def)
  have b: "parseAllCommands basicRequest = Inr [lsRefsCommand]"
    by (simp add: basicRequest_def)
  have c: "''Basic QQ=='' = Get (Header basicRequest) ''Authorization''"
    by (simp add: basicRequest_def Get_def)
  have m: "specBasicAuthMatch ''Basic QQ==''"
    by (simp add: specBasicAuthMatch_def HasPrefix_def specBasicAuthClass_def)
  then have d: "''Basic QQ=='' = (if basicAuthMatch ''Basic QQ=='' then ''Basic QQ=='' else [])"
    using specBasicAuthMatch_code by simp
  have n: "getManagedRepository Map.empty exampleConfig (reqURL basicRequest) = None"
    by (simp add: getManagedRepository_def)
  have u: "reqURL basicRequest = uploadPackURL" by (simp add: basicRequest_def)
  have e: "privateMirror = fst (lookupOrCreate Map.empty exampleConfig (reqURL basicRequest) ''Basic QQ=='')"
    using lookupOrCreate_new [OF n] by (simp add: privateMirror_def u)
  have reg: "snd (lookupOrCreate Map.empty exampleConfig (reqURL basicRequest) ''Basic QQ=='')
             = privateRegistry"
    using lookupOrCreate_new [OF n] by (simp add: privateRegistry_def u)
  have op: "open_repo exampleWorld privateMirror = (None, [])"
    by (simp add: open_repo_def exampleWorld_def)
  have loop: "commandLoop exampleWorld staleEnvs privateMirror ''Basic QQ=='' 0 [lsRefsCommand]
              = (Returned None, writeResp exampleWorld advertisement,
                 [LsRefsUpstream lsRefsCommand ''Basic QQ=='', GoFetchUpstream ''Basic QQ=='',
                  WriteResp advertisement])"
    by (simp add: staleEnvs_def staleEnv_ls_refs)
  note all = upload_pack_credential [OF a b c d e, of exampleWorld staleEnvs]
  have r: "fst (snd (handleGitUploadPack exampleWorld staleEnvs Map.empty basicRequest exampleConfig))
          = privateRegistry"
    using all [THEN conjunct2, THEN conjunct2, THEN conjunct1] reg by (simp only:)
  have fo: "fst (open_repo exampleWorld privateMirror) = None" by (simp only: op fst_conv)
  have "snd (snd (handleGitUploadPack exampleWorld staleEnvs Map.empty basicRequest exampleConfig))
          = map RunGit (snd (open_repo exampleWorld privateMirror))
            @ snd (snd (commandLoop exampleWorld staleEnvs privateMirror ''Basic QQ=='' 0
                          [lsRefsCommand]))"
    using all [THEN conjunct2, THEN conjunct2, THEN conjunct2, THEN conjunct2, THEN conjunct1] fo
    by blast
  then have s: "snd (snd (handleGitUploadPack exampleWorld staleEnvs Map.empty basicRequest exampleConfig))
          = [LsRefsUpstream lsRefsCommand ''Basic QQ=='', GoFetchUpstream ''Basic QQ=='',
             WriteResp advertisement]"
    unfolding op loop by simp
  have al: "accessList privateMirror = [''Basic QQ=='']"
    using privateRegistry_lookup by blast
  from m c [symmetric] n fo r al s show ?thesis by blast
qed

text \<open>
  The credential is not the capture group: for the header \<^verbatim>\<open>Basic QQ==\<close> the group is
  \<^verbatim>\<open>QQ==\<close>, while the mirror is created with the whole header in its access list and the
  upstream request carries the whole header. Nor is the credential empty for every header
  outside \<^verbatim>\<open>^Basic ([A-Za-z0-9+=]*)$\<close>: a token with a backslash is kept.
\<close>

theorem upload_pack_credential_counterexample:
  "Get (Header basicRequest) ''Authorization'' = ''Basic QQ==''
   \<and> specBasicAuthMatch ''Basic QQ==''
   \<and> FindString ''Basic QQ=='' = ''Basic QQ==''
   \<and> ''Basic QQ=='' \<noteq> ''QQ==''
   \<and> map_option accessList
        (fst (snd (handleGitUploadPack exampleWorld staleEnvs Map.empty basicRequest exampleConfig))
           (localDiskPath privateMirror)) = Some [''Basic QQ=='']
   \<and> snd (snd (handleGitUploadPack exampleWorld staleEnvs Map.empty basicRequest exampleConfig))
       = [LsRefsUpstream lsRefsCommand ''Basic QQ=='', GoFetchUpstream ''Basic QQ=='',
          WriteResp advertisement]
   \<and> \<not> specBasicAuthMatch backslashHeader
   \<and> FindString backslashHeader = backslashHeader
   \<and> backslashHeader \<noteq> []"
proof -
  have a: "\<not> (Get (Header basicRequest) ''Content-Encoding'' = ''gzip''
              \<and> gzipNewReader basicRequest \<noteq> None)"
    by (simp add: basicRequest_def)
  have b: "parseAllCommands basicRequest = Inr [lsRefsCommand]"
    by (simp add: basicRequest_def)
  have c: "Get (Header basicRequest) ''Authorization'' = ''Basic QQ==''"
    by (simp add: basicRequest_def Get_def)
  have m: "specBasicAuthMatch ''Basic QQ==''"
    by (simp add: specBasicAuthMatch_def HasPrefix_def specBasicAuthClass_def)
  have f: "FindString ''Basic QQ=='' = ''Basic QQ==''"
    using specBasicAuthMatch_code [OF m] by (simp add: FindString_def)
  have n: "getManagedRepository Map.empty exampleConfig (reqURL basicRequest) = None"
    by (simp add: getManagedRepository_def)
  have u: "reqURL basicRequest = uploadPackURL" by (simp add: basicRequest_def)
  have e: "fst (lookupOrCreate Map.empty exampleConfig (reqURL basicRequest) ''Basic QQ=='')
           = privateMirror"
    using lookupOrCreate_new [OF n] by (simp add: privateMirror_def u)
  have reg: "fst (snd (handleGitUploadPack exampleWorld staleEnvs Map.empty basicRequest exampleConfig))
             = privateRegistry"
    using handleGitUploadPack_registry [OF a b] lookupOrCreate_new [OF n]
    by (simp add: c f privateRegistry_def u)
  have op: "open_repo exampleWorld privateMirror = (None, [])"
    by (simp add: open_repo_def exampleWorld_def)
  have loop: "commandLoop exampleWorld staleEnvs privateMirror ''Basic QQ=='' 0 [lsRefsCommand]
              = (Returned None, writeResp exampleWorld advertisement,
                 [LsRefsUpstream lsRefsCommand ''Basic QQ=='', GoFetchUpstream ''Basic QQ=='',
                  WriteResp advertisement])"
    by (simp add: staleEnvs_def staleEnv_ls_refs)
  have evs: "snd (snd (handleGitUploadPack exampleWorld staleEnvs Map.empty basicRequest exampleConfig))
       = [LsRefsUpstream lsRefsCommand ''Basic QQ=='', GoFetchUpstream ''Basic QQ=='',
          WriteResp advertisement]"
    using handleGitUploadPack_events [OF a b, of privateMirror Map.empty exampleConfig
        exampleWorld staleEnvs, unfolded c f e op loop]
    by simp
  have s: "\<not> specBasicAuthMatch backslashHeader"
    by (simp add: specBasicAuthMatch_def backslashHeader_def HasPrefix_def specBasicAuthClass_def)
  have k: "basicAuthMatch backslashHeader"
    by (simp add: basicAuthMatch_def backslashHeader_def HasPrefix_def basicAuthClass_def)
  then have g: "FindString backslashHeader = backslashHeader" by (simp add: FindString_def)
  have h: "backslashHeader \<noteq> []" by (simp add: backslashHeader_def)
  have al: "map_option accessList
        (fst (snd (handleGitUploadPack exampleWorld staleEnvs Map.empty basicRequest exampleConfig))
           (localDiskPath privateMirror)) = Some [''Basic QQ=='']"
    unfolding reg using privateRegistry_lookup by simp
  have ne: "''Basic QQ=='' \<noteq> ''QQ==''" by simp
  from c m f ne al evs s g h show ?thesis by blast
qed

section \<open>The local path\<close>

text \<open>
  Claim C5. \<^verbatim>\<open>stripGitSuffixes\<close> deletes the four strings wherever they stand in the
  path, not only at its end. The path \<^verbatim>\<open>/org/my.github.io\<close> ends with none of them and
  loses the \<^verbatim>\<open>.git\<close> inside it, so the repositories \<^verbatim>\<open>/org/my.github.io\<close> and
  \<^verbatim>\<open>/org/myhub.io\<close> of one host get the same local path. Deleting \<^verbatim>\<open>.git\<close> from
  \<^verbatim>\<open>/a.g.gitit\<close> joins the pieces around it into a new \<^verbatim>\<open>.git\<close>, which a second strip
  deletes: the strip is not idempotent.
\<close>

theorem stripGitSuffixes_inner_occurrence:
  "stripGitSuffixes ''/org/my.github.io'' = ''/org/myhub.io''
   \<and> getLocalGitRepositoryPath exampleConfig (publicURL\<lparr>Path := ''/org/my.github.io/git-upload-pack''\<rparr>)
       = ''/cache/example.invalid/org/myhub.io''
   \<and> getLocalGitRepositoryPath exampleConfig (publicURL\<lparr>Path := ''/org/myhub.io/git-upload-pack''\<rparr>)
       = ''/cache/example.invalid/org/myhub.io''
   \<and> stripGitSuffixes ''/a.g.gitit'' = ''/a.git''
   \<and> stripGitSuffixes (stripGitSuffixes ''/a.g.gitit'') = ''/a''"
  by (simp add: stripGitSuffixes_def gitSuffixReplacer_def getLocalGitRepositoryPath_def
      exampleConfig_def publicURL_def zeroURL_def Join_def Clean_def Let_def)

section \<open>The ls-refs command\<close>




section \<open>The info/refs request to a private mirror\<close>

text \<open>
  Claim C7, as the code has it. A request for \<^verbatim>\<open>info/refs\<close> with the service
  \<^verbatim>\<open>git-upload-pack\<close>, to a registered mirror that is not public and without an
  \<^verbatim>\<open>Authorization\<close> header, is answered with status 401, the content type
  \<^verbatim>\<open>text/plain\<close>, and the body
  \<^verbatim>\<open>unauthorized - please send basic auth credentials\<close>, which holds the word
  \<^verbatim>\<open>unauthorized\<close>.
\<close>

theorem handleInfoRefs_unauthorized:
  assumes "QueryGet w (RawQuery (reqURL r)) ''service'' = ''git-upload-pack''"
    and "getManagedRepository managedRepos cfg (reqURL r) = Some repository"
    and "\<not> isPublic repository"
    and "Get (Header r) ''Authorization'' = []"
  shows "\<exists>resp. handleInfoRefs w managedRepos r cfg = Some resp
           \<and> StatusCode resp = 401
           \<and> RespHeader resp = [(''Content-Type'', ''text/plain'')]
           \<and> Body resp = ''unauthorized - please send basic auth credentials''
           \<and> Contains (Body resp) ''unauthorized''"
  using assms
  by (simp add: handleInfoRefs_def managedRepositoryExists_def getManagedRepository_def
      NewResponse_def ContentTypeText_def StatusUnauthorized_def)

theorem handleInfoRefs_unauthorized_witness:
  "QueryGet exampleWorld (RawQuery (reqURL infoRefsRequest)) ''service'' = ''git-upload-pack''
   \<and> getManagedRepository privateRegistry exampleConfig (reqURL infoRefsRequest) = Some privateMirror
   \<and> \<not> isPublic privateMirror
   \<and> Get (Header infoRefsRequest) ''Authorization'' = []
   \<and> (\<exists>resp. handleInfoRefs exampleWorld privateRegistry infoRefsRequest exampleConfig = Some resp
           \<and> StatusCode resp = 401
           \<and> RespHeader resp = [(''Content-Type'', ''text/plain'')]
           \<and> Body resp = ''unauthorized - please send basic auth credentials''
           \<and> Contains (Body resp) ''unauthorized'')"
proof -
  have a: "QueryGet exampleWorld (RawQuery (reqURL infoRefsRequest)) ''service'' = ''git-upload-pack''"
    by (simp add: exampleWorld_def infoRefsRequest_def infoRefsURL_def singleQueryGet_def
        HasPrefix_def)
  have b: "getManagedRepository privateRegistry exampleConfig (reqURL infoRefsRequest)
             = Some privateMirror"
    by (simp add: privateRegistry_def privateMirror_def infoRefsRequest_def exampleConfig_def
        infoRefsURL_def uploadPackURL_def zeroURL_def getManagedRepository_def
        getLocalGitRepositoryPath_def stripGitSuffixes_def gitSuffixReplacer_def Join_def
        Clean_def createManagedRepository_def urlFixer_def HasSuffix_def TrimSuffix_def
        suffix_to_prefix Let_def)
  have c: "\<not> isPublic privateMirror"
    by (simp add: privateMirror_def createManagedRepository_def Let_def)
  have d: "Get (Header infoRefsRequest) ''Authorization'' = []"
    by (simp add: infoRefsRequest_def Get_def)
  from handleInfoRefs_unauthorized [OF a b c d] a b c d show ?thesis by blast
qed

text \<open>
  The content type of that answer is not \<^verbatim>\<open>application/x-git-upload-pack-advertisement\<close>,
  and \<^verbatim>\<open>Content-Type\<close> is its only header.
\<close>

theorem handleInfoRefs_unauthorized_counterexample:
  "handleInfoRefs exampleWorld privateRegistry infoRefsRequest exampleConfig
     = Some \<lparr>StatusCode = 401, RespHeader = [(''Content-Type'', ''text/plain'')],
             Body = ''unauthorized - please send basic auth credentials''\<rparr>
   \<and> \<not> isPublic privateMirror
   \<and> getManagedRepository privateRegistry exampleConfig (reqURL infoRefsRequest) = Some privateMirror
   \<and> ''text/plain'' \<noteq> ''application/x-git-upload-pack-advertisement''"
  by (simp add: handleInfoRefs_def exampleWorld_def privateRegistry_def infoRefsRequest_def
      exampleConfig_def infoRefsURL_def uploadPackURL_def zeroURL_def singleQueryGet_def
      HasPrefix_def managedRepositoryExists_def getManagedRepository_def
      getLocalGitRepositoryPath_def stripGitSuffixes_def gitSuffixReplacer_def Join_def Clean_def
      createManagedRepository_def urlFixer_def HasSuffix_def TrimSuffix_def suffix_to_prefix
      Let_def Get_def NewResponse_def ContentTypeText_def StatusUnauthorized_def privateMirror_def)

section \<open>The canonical URL\<close>

text \<open>
  Claim C8. The canonical URL has the scheme \<^verbatim>\<open>https\<close> and the host of the input; its
  path is the input path without a trailing \<^verbatim>\<open>/info/refs\<close>, \<^verbatim>\<open>/git-receive-pack\<close> or
  \<^verbatim>\<open>/git-upload-pack\<close>, and the input path itself when it ends with none of them; it
  has no query, no fragment and no userinfo.
\<close>

theorem urlFixer_canonical:
  "Scheme (urlFixer u) = ''https'' \<and> Host (urlFixer u) = Host u
   \<and> (\<forall>p. Path u = p @ ''/info/refs'' \<longrightarrow> Path (urlFixer u) = p)
   \<and> (\<forall>p. Path u = p @ ''/git-receive-pack'' \<longrightarrow> Path (urlFixer u) = p)
   \<and> (\<forall>p. Path u = p @ ''/git-upload-pack'' \<longrightarrow> Path (urlFixer u) = p)
   \<and> (\<not> HasSuffix (Path u) ''/info/refs'' \<and> \<not> HasSuffix (Path u) ''/git-receive-pack''
        \<and> \<not> HasSuffix (Path u) ''/git-upload-pack'' \<longrightarrow> Path (urlFixer u) = Path u)
   \<and> RawQuery (urlFixer u) = [] \<and> ForceQuery (urlFixer u) = False
   \<and> Fragment (urlFixer u) = [] \<and> RawFragment (urlFixer u) = []
   \<and> User (urlFixer u) = None \<and> Opaque (urlFixer u) = [] \<and> RawPath (urlFixer u) = []"
  by (simp add: urlFixer_def zeroURL_def HasSuffix_def TrimSuffix_def Let_def suffix_to_prefix)

theorem urlFixer_canonical_witness:
  "Path (urlFixer infoRefsURL) = ''/private/r.git''
   \<and> Path (urlFixer uploadPackURL) = ''/private/r.git''
   \<and> Path (urlFixer (uploadPackURL\<lparr>Path := ''/private/r.git/git-receive-pack''\<rparr>)) = ''/private/r.git''
   \<and> Path (urlFixer (uploadPackURL\<lparr>Path := ''/private/r.git''\<rparr>)) = ''/private/r.git''
   \<and> RawQuery (urlFixer infoRefsURL) = []"
proof -
  have a: "Path infoRefsURL = ''/private/r.git'' @ ''/info/refs''"
    by (simp add: infoRefsURL_def zeroURL_def)
  have b: "Path uploadPackURL = ''/private/r.git'' @ ''/git-upload-pack''"
    by (simp add: uploadPackURL_def zeroURL_def)
  have c: "Path (uploadPackURL\<lparr>Path := ''/private/r.git/git-receive-pack''\<rparr>)
             = ''/private/r.git'' @ ''/git-receive-pack''"
    by simp
  have d: "\<not> HasSuffix (Path (uploadPackURL\<lparr>Path := ''/private/r.git''\<rparr>)) ''/info/refs''
           \<and> \<not> HasSuffix (Path (uploadPackURL\<lparr>Path := ''/private/r.git''\<rparr>)) ''/git-receive-pack''
           \<and> \<not> HasSuffix (Path (uploadPackURL\<lparr>Path := ''/private/r.git''\<rparr>)) ''/git-upload-pack''"
    by (simp add: HasSuffix_def suffix_to_prefix)
  from a urlFixer_canonical [of infoRefsURL]
  have 1: "Path (urlFixer infoRefsURL) = ''/private/r.git''" by blast
  from b urlFixer_canonical [of uploadPackURL]
  have 2: "Path (urlFixer uploadPackURL) = ''/private/r.git''" by blast
  from c urlFixer_canonical [of "uploadPackURL\<lparr>Path := ''/private/r.git/git-receive-pack''\<rparr>"]
  have 3: "Path (urlFixer (uploadPackURL\<lparr>Path := ''/private/r.git/git-receive-pack''\<rparr>))
             = ''/private/r.git''" by blast
  from d urlFixer_canonical [of "uploadPackURL\<lparr>Path := ''/private/r.git''\<rparr>"]
  have 4: "Path (urlFixer (uploadPackURL\<lparr>Path := ''/private/r.git''\<rparr>)) = ''/private/r.git''"
    by simp
  from urlFixer_canonical [of infoRefsURL]
  have 5: "RawQuery (urlFixer infoRefsURL) = []" by blast
  from 1 2 3 4 5 show ?thesis by blast
qed

section \<open>A credential the pattern does not match\<close>

text \<open>
  Claim C9. When the \<^verbatim>\<open>Authorization\<close> header of an upload-pack request does not match
  the pattern of the source, the credential is empty; if the request gets as far as the
  registry (its body is read and parsed) and no mirror is registered for its URL, the
  mirror it creates is public and has an empty access list.
\<close>

theorem unmatched_credential_public_mirror:
  assumes "\<not> basicAuthMatch (Get (Header r) ''Authorization'')"
    and "\<not> (Get (Header r) ''Content-Encoding'' = ''gzip'' \<and> gzipNewReader r \<noteq> None)"
    and "parseAllCommands r = Inr commands"
    and "getManagedRepository managedRepos cfg (reqURL r) = None"
  shows "FindString (Get (Header r) ''Authorization'') = []
    \<and> (\<exists>repository.
          fst (snd (handleGitUploadPack w envs managedRepos r cfg))
            (getLocalGitRepositoryPath cfg (urlFixer (reqURL r))) = Some repository
          \<and> isPublic repository \<and> accessList repository = [])"
proof -
  from assms(1) have auth: "FindString (Get (Header r) ''Authorization'') = []"
    by (simp add: FindString_def)
  have "fst (snd (handleGitUploadPack w envs managedRepos r cfg))
          = snd (createManagedRepository managedRepos cfg (reqURL r) [])"
    using handleGitUploadPack_registry [OF assms(2,3)] lookupOrCreate_new [OF assms(4)] auth
    by simp
  then show ?thesis using auth
    by (simp add: createManagedRepository_def Let_def)
qed

theorem unmatched_credential_public_mirror_witness:
  "\<not> basicAuthMatch (Get (Header slashRequest) ''Authorization'')
   \<and> Get (Header slashRequest) ''Authorization'' = ''Basic YTo/Pz8=''
   \<and> (\<exists>repository.
          fst (snd (handleGitUploadPack exampleWorld (\<lambda>i. staleEnv) Map.empty slashRequest exampleConfig))
            (getLocalGitRepositoryPath exampleConfig (urlFixer (reqURL slashRequest))) = Some repository
          \<and> isPublic repository \<and> accessList repository = [])"
proof -
  have a: "\<not> basicAuthMatch (Get (Header slashRequest) ''Authorization'')"
    by (simp add: slashRequest_def Get_def basicAuthMatch_def HasPrefix_def basicAuthClass_def)
  have b: "\<not> (Get (Header slashRequest) ''Content-Encoding'' = ''gzip'' \<and> gzipNewReader slashRequest \<noteq> None)"
    by (simp add: slashRequest_def)
  have c: "parseAllCommands slashRequest = Inr [lsRefsCommand]"
    by (simp add: slashRequest_def)
  have d: "getManagedRepository Map.empty exampleConfig (reqURL slashRequest) = None"
    by (simp add: getManagedRepository_def)
  have e: "Get (Header slashRequest) ''Authorization'' = ''Basic YTo/Pz8=''"
    by (simp add: slashRequest_def Get_def)
  from unmatched_credential_public_mirror [OF a b c d, of exampleWorld "\<lambda>i. staleEnv"] a e
  show ?thesis by blast
qed

section \<open>Opening a mirror\<close>

text \<open>
  Claim C10. \<^verbatim>\<open>open\<close> returns an error exactly when \<^verbatim>\<open>os.Stat\<close> fails with an error
  other than not-exist, or fails with not-exist and \<^verbatim>\<open>os.MkdirAll\<close> fails. What the git
  commands return has no part in the result: with a missing directory that can be created,
  \<^verbatim>\<open>open\<close> returns \<^verbatim>\<open>nil\<close> after running its seven commands even if every one of them
  fails.
\<close>

theorem open_repo_errors:
  "(fst (open_repo w r) \<noteq> None \<longleftrightarrow>
      (\<exists>err. Stat w (localDiskPath r) = Some err
             \<and> (\<not> IsNotExist err \<or> MkdirAll w (localDiskPath r) \<noteq> None)))
   \<and> fst (open_repo (w\<lparr>Run := run\<rparr>) r) = fst (open_repo w r)
   \<and> ((\<forall>cmd. Run w cmd \<noteq> None)
        \<and> (\<exists>err. Stat w (localDiskPath r) = Some err \<and> IsNotExist err)
        \<and> MkdirAll w (localDiskPath r) = None
      \<longrightarrow> fst (open_repo w r) = None
          \<and> map Args (snd (open_repo w r)) = map (\<lambda>arg. gitBinary w # arg) (openCommands w r))"
  by (auto simp: open_repo_def runGit_def gitCmd_def Let_def openCommands_def
      split: option.splits)

theorem open_repo_errors_witness:
  "(\<forall>cmd. Run brokenGitWorld cmd \<noteq> None)
   \<and> (\<exists>err. Stat brokenGitWorld (localDiskPath privateMirror) = Some err \<and> IsNotExist err)
   \<and> MkdirAll brokenGitWorld (localDiskPath privateMirror) = None
   \<and> fst (open_repo brokenGitWorld privateMirror) = None
   \<and> length (snd (open_repo brokenGitWorld privateMirror)) = 7"
proof -
  have a: "\<forall>cmd. Run brokenGitWorld cmd \<noteq> None"
    by (simp add: brokenGitWorld_def)
  have b: "\<exists>err. Stat brokenGitWorld (localDiskPath privateMirror) = Some err \<and> IsNotExist err"
    by (simp add: brokenGitWorld_def)
  have c: "MkdirAll brokenGitWorld (localDiskPath privateMirror) = None"
    by (simp add: brokenGitWorld_def exampleWorld_def)
  from a b c open_repo_errors [of brokenGitWorld privateMirror]
  have d: "fst (open_repo brokenGitWorld privateMirror) = None
           \<and> map Args (snd (open_repo brokenGitWorld privateMirror))
             = map (\<lambda>arg. gitBinary brokenGitWorld # arg) (openCommands brokenGitWorld privateMirror)"
    by blast
  then have "length (snd (open_repo brokenGitWorld privateMirror))
               = length (openCommands brokenGitWorld privateMirror)"
    by (metis length_map)
  then have e: "length (snd (open_repo brokenGitWorld privateMirror)) = 7"
    by (simp add: openCommands_def)
  from a b c d e show ?thesis by blast
qed

end
